theory Spec2Isabelle
  imports Main
begin

section \<open>Configuration and external collaborators\<close>

text \<open>
  The module-level constants of \<^verbatim>\<open>main.py\<close> (lines 16-33). The source ships
  placeholders for them, so they are fields of a record that every function receives.
\<close>

record config =
  WIFI_SSID :: string
  WIFI_PASS :: string
  AWS_ENDPOINT :: string
  AWS_PORT :: nat
  DEVICE_CERT :: string
  DEVICE_KEY :: string
  THING_NAME :: string
  MEASURE_INTERVAL_MS :: nat

text \<open>Line 31: \<^verbatim>\<open>MQTT_TOPIC = "devices/{}/telemetry".format(THING_NAME)\<close>.\<close>

definition MQTT_TOPIC :: "config \<Rightarrow> string" where
  "MQTT_TOPIC c = ''devices/'' @ THING_NAME c @ ''/telemetry''"

text \<open>The \<^verbatim>\<open>ssl_params\<close> dictionary and the \<^verbatim>\<open>MQTTClient\<close> object of lines 71-82.\<close>

record ssl_params =
  key :: string
  cert :: string
  server_side :: bool

record MQTTClient =
  client_id :: string
  server :: string
  port :: nat
  keepalive :: nat
  ssl :: bool
  ssl_par :: ssl_params

text \<open>
  Everything the program does to the outside world is logged, in order, as an event.
  Durations are in milliseconds: \<^verbatim>\<open>time.sleep(5)\<close> is \<open>Sleep 5000\<close>,
  \<^verbatim>\<open>time.sleep(0.5)\<close> is \<open>Sleep 500\<close>, \<^verbatim>\<open>time.sleep_ms(100)\<close> is \<open>Sleep 100\<close>.
\<close>

datatype event =
    Print "string list"
  | Sleep nat
  | Wlan_active
  | Wlan_connect string string
  | Timer_init nat
  | Dht_measure
  | Mqtt_connect MQTTClient
  | Mqtt_publish string string
  | Mqtt_disconnect
  | Machine_reset

text \<open>
  The behaviour of the collaborators is a parameter. The \<open>k\<close>-th call of a library
  operation raises the exception \<open>e\<close> when its oracle gives \<open>Some e\<close> (or \<open>Inl e\<close>);
  the link status is a function of the clock; \<open>irq_fires k\<close> says whether the timer
  interrupt is serviced at the \<open>k\<close>-th point where the main loop can be interrupted.
\<close>

record env =
  cfg :: config
  unique_id_hex :: string
  wlan_isconnected :: "nat \<Rightarrow> bool"
  wlan_ip :: string
  connect_raises :: "nat \<Rightarrow> string option"
  publish_raises :: "nat \<Rightarrow> string option"
  disconnect_raises :: "nat \<Rightarrow> string option"
  dht_read :: "nat \<Rightarrow> string + (int \<times> int)"
  irq_fires :: "nat \<Rightarrow> bool"

text \<open>
  The globals of lines 37-40, the clock, the number of calls made so far to each
  collaborator, and the log of events.
\<close>

record world =
  measure_pending :: bool
  last_measure_time :: int
  wifi_connected :: bool
  mqtt_client :: "MQTTClient option"
  clock_ms :: nat
  n_connect :: nat
  n_publish :: nat
  n_disconnect :: nat
  n_dht :: nat
  n_irq :: nat
  trace :: "event list"

definition emit :: "event \<Rightarrow> world \<Rightarrow> world" where
  "emit ev w = w\<lparr>trace := trace w @ [ev]\<rparr>"

definition print :: "string list \<Rightarrow> world \<Rightarrow> world" where
  "print args w = emit (Print args) w"

definition sleep :: "nat \<Rightarrow> world \<Rightarrow> world" where
  "sleep ms w = emit (Sleep ms) (w\<lparr>clock_ms := clock_ms w + ms\<rparr>)"

text \<open>\<^verbatim>\<open>time.time()\<close>: whole seconds.\<close>

definition time_time :: "world \<Rightarrow> int" where
  "time_time w = int (clock_ms w div 1000)"

section \<open>The JSON text of a flat dictionary\<close>

text \<open>
  \<^verbatim>\<open>json.dumps\<close> is MicroPython's library serialiser. The program calls it on a
  dictionary with string keys whose values are integers or strings, and this is its
  output format on such a dictionary: items separated by a comma and a space, key and
  value by a colon and a space, integers in decimal, strings between double quotes with
  the quote and the backslash escaped by a backslash, newline, carriage return and tab
  as \<^verbatim>\<open>\n\<close>, \<^verbatim>\<open>\r\<close>, \<^verbatim>\<open>\t\<close>, and every other byte below 32 as
  \<^verbatim>\<open>\u00XX\<close>. The dictionary is an association list in the order of the source.
\<close>

datatype json = JInt int | JStr string

type_synonym dict = "(string \<times> json) list"

definition digit_char :: "nat \<Rightarrow> char" where
  "digit_char n = char_of (48 + n)"

fun digits :: "nat \<Rightarrow> string" where
  "digits n = (if n < 10 then [digit_char n] else digits (n div 10) @ [digit_char (n mod 10)])"

declare digits.simps [simp del]

definition str_int :: "int \<Rightarrow> string" where
  "str_int i = (if i < 0 then CHR ''-'' # digits (nat (- i)) else digits (nat i))"

definition hex_char :: "nat \<Rightarrow> char" where
  "hex_char n = (if n < 10 then char_of (48 + n) else char_of (87 + n))"

definition json_char :: "char \<Rightarrow> string" where
  "json_char c =
     (if c = CHR 0x22 \<or> c = CHR 0x5C then [CHR 0x5C, c]
      else if 32 \<le> (of_char c :: nat) then [c]
      else if c = CHR 0x0A then [CHR 0x5C, CHR ''n'']
      else if c = CHR 0x0D then [CHR 0x5C, CHR ''r'']
      else if c = CHR 0x09 then [CHR 0x5C, CHR ''t'']
      else [CHR 0x5C, CHR ''u'', CHR ''0'', CHR ''0'',
            hex_char ((of_char c :: nat) div 16), hex_char ((of_char c :: nat) mod 16)])"

definition json_str :: "string \<Rightarrow> string" where
  "json_str s = CHR 0x22 # concat (map json_char s) @ [CHR 0x22]"

fun json_value :: "json \<Rightarrow> string" where
  "json_value (JInt i) = str_int i"
| "json_value (JStr s) = json_str s"

definition json_item :: "string \<times> json \<Rightarrow> string" where
  "json_item kv = json_str (fst kv) @ '': '' @ json_value (snd kv)"

fun json_items :: "dict \<Rightarrow> string" where
  "json_items [] = []"
| "json_items [kv] = json_item kv"
| "json_items (kv # kvs) = json_item kv @ '', '' @ json_items kvs"

definition json_dumps :: "dict \<Rightarrow> string" where
  "json_dumps d = ''{'' @ json_items d @ ''}''"

text \<open>
  Modelled from the spec: the parsing back of the wire payload, which the round-trip
  property of the spec speaks of and the repository does not contain (the device only
  writes JSON). It is the JSON reading of an object whose keys are strings and whose
  values are integers or strings, with optional blanks around the punctuation, as
  \<^verbatim>\<open>json.loads\<close> does it. The result lists the items in the order of the text.
  A \<^verbatim>\<open>\uXXXX\<close> escape is read when it names a byte; \<open>read_items\<close> reads at
  most as many items as its first argument says.
\<close>

definition is_digit :: "char \<Rightarrow> bool" where
  "is_digit c = (48 \<le> (of_char c :: nat) \<and> (of_char c :: nat) \<le> 57)"

definition digit_val :: "char \<Rightarrow> nat" where
  "digit_val c = of_char c - 48"

definition read_nat :: "string \<Rightarrow> (nat \<times> string) option" where
  "read_nat s =
     (let ds = takeWhile is_digit s
      in if ds = [] then None
         else Some (foldl (\<lambda>a c. 10 * a + digit_val c) 0 ds, dropWhile is_digit s))"

definition read_int :: "string \<Rightarrow> (int \<times> string) option" where
  "read_int s =
     (case s of
        [] \<Rightarrow> None
      | c # r \<Rightarrow>
          if c = CHR ''-''
          then (case read_nat r of None \<Rightarrow> None | Some (n, t) \<Rightarrow> Some (- int n, t))
          else (case read_nat s of None \<Rightarrow> None | Some (n, t) \<Rightarrow> Some (int n, t)))"

definition hex_val :: "char \<Rightarrow> nat option" where
  "hex_val c =
     (let n = (of_char c :: nat)
      in if 48 \<le> n \<and> n \<le> 57 then Some (n - 48)
         else if 97 \<le> n \<and> n \<le> 102 then Some (n - 87)
         else if 65 \<le> n \<and> n \<le> 70 then Some (n - 55)
         else None)"

definition hex4 :: "char \<Rightarrow> char \<Rightarrow> char \<Rightarrow> char \<Rightarrow> char option" where
  "hex4 a b c d =
     (case (hex_val a, hex_val b, hex_val c, hex_val d) of
        (Some h3, Some h2, Some h1, Some h0) \<Rightarrow>
          (let n = ((h3 * 16 + h2) * 16 + h1) * 16 + h0
           in if n < 256 then Some (char_of n) else None)
      | _ \<Rightarrow> None)"

definition unescape :: "char \<Rightarrow> char option" where
  "unescape c =
     (if c = CHR 0x22 \<or> c = CHR 0x5C \<or> c = CHR ''/'' then Some c
      else if c = CHR ''n'' then Some (CHR 0x0A)
      else if c = CHR ''r'' then Some (CHR 0x0D)
      else if c = CHR ''t'' then Some (CHR 0x09)
      else if c = CHR ''b'' then Some (CHR 0x08)
      else if c = CHR ''f'' then Some (CHR 0x0C)
      else None)"

definition cons_to :: "char \<Rightarrow> (string \<times> string) option \<Rightarrow> (string \<times> string) option" where
  "cons_to c res = (case res of None \<Rightarrow> None | Some (s, t) \<Rightarrow> Some (c # s, t))"

text \<open>The characters of a string after its opening quote, up to the closing one.\<close>

fun read_str_body :: "string \<Rightarrow> (string \<times> string) option" where
  "read_str_body [] = None"
| "read_str_body [c] = (if c = CHR 0x22 then Some ([], []) else None)"
| "read_str_body (c # e # r) =
     (if c = CHR 0x22 then Some ([], e # r)
      else if c = CHR 0x5C then
        (if e = CHR ''u'' then
           (case r of
              a # b # c' # d # r' \<Rightarrow>
                (case hex4 a b c' d of
                   None \<Rightarrow> None
                 | Some ch \<Rightarrow> cons_to ch (read_str_body r'))
            | _ \<Rightarrow> None)
         else (case unescape e of
                 None \<Rightarrow> None
               | Some ch \<Rightarrow> cons_to ch (read_str_body r)))
      else cons_to c (read_str_body (e # r)))"

definition read_str :: "string \<Rightarrow> (string \<times> string) option" where
  "read_str s =
     (case s of [] \<Rightarrow> None | c # r \<Rightarrow> if c = CHR 0x22 then read_str_body r else None)"

definition read_value :: "string \<Rightarrow> (json \<times> string) option" where
  "read_value s =
     (case s of
        [] \<Rightarrow> None
      | c # r \<Rightarrow>
          if c = CHR 0x22
          then (case read_str_body r of None \<Rightarrow> None | Some (v, t) \<Rightarrow> Some (JStr v, t))
          else (case read_int s of None \<Rightarrow> None | Some (i, t) \<Rightarrow> Some (JInt i, t)))"

definition is_blank :: "char \<Rightarrow> bool" where
  "is_blank c = (c = CHR '' '' \<or> c = CHR 0x09 \<or> c = CHR 0x0A \<or> c = CHR 0x0D)"

definition skip_ws :: "string \<Rightarrow> string" where
  "skip_ws s = dropWhile is_blank s"

definition read_item :: "string \<Rightarrow> ((string \<times> json) \<times> string) option" where
  "read_item s =
     (case read_str s of
        None \<Rightarrow> None
      | Some (k, r) \<Rightarrow>
          (case skip_ws r of
             [] \<Rightarrow> None
           | c # r' \<Rightarrow>
               if c = CHR '':''
               then (case read_value (skip_ws r') of
                       None \<Rightarrow> None
                     | Some (v, t) \<Rightarrow> Some ((k, v), t))
               else None))"

fun read_items :: "nat \<Rightarrow> string \<Rightarrow> (dict \<times> string) option" where
  "read_items 0 s = None"
| "read_items (Suc n) s =
     (case read_item s of
        None \<Rightarrow> None
      | Some (kv, r) \<Rightarrow>
          (case skip_ws r of
             [] \<Rightarrow> None
           | c # r' \<Rightarrow>
               if c = CHR '',''
               then (case read_items n (skip_ws r') of
                       None \<Rightarrow> None
                     | Some (kvs, t) \<Rightarrow> Some (kv # kvs, t))
               else if c = CHR ''}'' then Some ([kv], r')
               else None))"

definition json_loads :: "string \<Rightarrow> dict option" where
  "json_loads s =
     (case skip_ws s of
        [] \<Rightarrow> None
      | c # r \<Rightarrow>
          if c = CHR ''{'' then
            (case skip_ws r of
               [] \<Rightarrow> None
             | d # r' \<Rightarrow>
                 if d = CHR ''}'' then (if skip_ws r' = [] then Some [] else None)
                 else (case read_items (length r) (skip_ws r) of
                         None \<Rightarrow> None
                       | Some (kvs, t) \<Rightarrow> if skip_ws t = [] then Some kvs else None))
          else None)"

text \<open>The text after a number does not go on with a digit.\<close>

definition no_digit_ahead :: "string \<Rightarrow> bool" where
  "no_digit_ahead r = (case r of [] \<Rightarrow> True | c # _ \<Rightarrow> \<not> is_digit c)"

section \<open>Network bring-up\<close>

text \<open>
  The polling loop of \<^verbatim>\<open>connect_wifi\<close> (lines 52-57). It returns \<open>False\<close> when the
  function returned \<open>False\<close> from inside the loop, \<open>True\<close> when the loop ended.
\<close>

function wifi_wait :: "env \<Rightarrow> int \<Rightarrow> world \<Rightarrow> bool \<times> world" where
  "wifi_wait e start w =
     (if wlan_isconnected e (clock_ms w) then (True, w)
      else if time_time w - start > 15
        then (False, (print [''WiFi connect timed out''] w)\<lparr>wifi_connected := False\<rparr>)
      else wifi_wait e start (sleep 500 w))"
  by pat_completeness auto
termination
  by (relation "measure (\<lambda>(e, start, w). nat ((start + 16) * 1000 - int (clock_ms w)))")
     (auto simp: time_time_def sleep_def emit_def)

declare wifi_wait.simps [simp del]

definition connect_wifi :: "env \<Rightarrow> world \<Rightarrow> bool \<times> world" where
  "connect_wifi e w =
     (let (up, w1) =
        (if \<not> wlan_isconnected e (clock_ms w) then
           (let w1 = print [''Connecting to WiFi...''] w;
                w2 = emit Wlan_active w1;
                w3 = emit (Wlan_connect (WIFI_SSID (cfg e)) (WIFI_PASS (cfg e))) w2
            in wifi_wait e (time_time w3) w3)
         else (True, w))
      in if up then (True, print [''WiFi connected, IP:'', wlan_ip e] (w1\<lparr>wifi_connected := True\<rparr>))
         else (False, w1))"

section \<open>The secure session\<close>

definition make_mqtt_client :: "env \<Rightarrow> MQTTClient" where
  "make_mqtt_client e =
     \<lparr>client_id = unique_id_hex e,
      server = AWS_ENDPOINT (cfg e),
      port = AWS_PORT (cfg e),
      keepalive = 60,
      ssl = True,
      ssl_par = \<lparr>key = DEVICE_KEY (cfg e), cert = DEVICE_CERT (cfg e), server_side = False\<rparr>\<rparr>"

definition mqtt_connect :: "env \<Rightarrow> world \<Rightarrow> bool \<times> world" where
  "mqtt_connect e w =
     (let c = (case mqtt_client w of None \<Rightarrow> make_mqtt_client e | Some c \<Rightarrow> c);
          w1 = w\<lparr>mqtt_client := Some c\<rparr>;
          w2 = print [''Connecting to AWS IoT MQTT...''] w1;
          w3 = emit (Mqtt_connect c) (w2\<lparr>n_connect := Suc (n_connect w2)\<rparr>)
      in case connect_raises e (n_connect w) of
           None \<Rightarrow> (True, print [''MQTT connected''] w3)
         | Some ex \<Rightarrow> (False, (print [''MQTT connection failed:'', ex] w3)\<lparr>mqtt_client := None\<rparr>))"

text \<open>
  The \<^verbatim>\<open>except\<close> branch of \<^verbatim>\<open>mqtt_publish\<close> (lines 108-114): the exception of
  \<^verbatim>\<open>disconnect()\<close> is swallowed.
\<close>

definition publish_failed :: "env \<Rightarrow> string \<Rightarrow> world \<Rightarrow> bool \<times> world" where
  "publish_failed e ex w =
     (let w1 = print [''Publish failed, will try reconnect:'', ex] w;
          w2 = (case mqtt_client w1 of
                  None \<Rightarrow> w1
                | Some c \<Rightarrow>
                    (let w' = emit Mqtt_disconnect (w1\<lparr>n_disconnect := Suc (n_disconnect w1)\<rparr>)
                     in case disconnect_raises e (n_disconnect w1) of None \<Rightarrow> w' | Some _ \<Rightarrow> w'))
      in (False, w2\<lparr>mqtt_client := None\<rparr>))"

definition mqtt_publish :: "env \<Rightarrow> string \<Rightarrow> world \<Rightarrow> bool \<times> world" where
  "mqtt_publish e payload w =
     (let (ok, w1) = (if mqtt_client w = None then mqtt_connect e w else (True, w))
      in if \<not> ok then (False, w1)
         else (case mqtt_client w1 of
                 None \<Rightarrow> publish_failed e ''AttributeError'' w1
               | Some c \<Rightarrow>
                   (let w2 = emit (Mqtt_publish (MQTT_TOPIC (cfg e)) payload)
                               (w1\<lparr>n_publish := Suc (n_publish w1)\<rparr>)
                    in case publish_raises e (n_publish w1) of
                         None \<Rightarrow> (True, w2)
                       | Some ex \<Rightarrow> publish_failed e ex w2)))"

section \<open>One measurement cycle\<close>

text \<open>The dictionary of lines 132-137.\<close>

definition make_payload :: "string \<Rightarrow> int \<Rightarrow> int \<Rightarrow> int \<Rightarrow> dict" where
  "make_payload thing ts temp hum =
     [(''thing'', JStr thing),
      (''timestamp'', JInt ts),
      (''temperature_C'', JInt temp),
      (''humidity_pct'', JInt hum)]"

definition measure_and_publish :: "env \<Rightarrow> world \<Rightarrow> bool \<times> world" where
  "measure_and_publish e w =
     (let w1 = emit Dht_measure (w\<lparr>n_dht := Suc (n_dht w)\<rparr>)
      in case dht_read e (n_dht w) of
           Inl ex \<Rightarrow> (False, print [''Sensor read failed:'', ex] w1)
         | Inr (temp, hum) \<Rightarrow>
             (let payload = make_payload (THING_NAME (cfg e)) (time_time w1) temp hum;
                  payload_json = json_dumps payload;
                  w2 = print [''Publishing:'', payload_json] w1;
                  (ok, w3) = mqtt_publish e payload_json w2
              in if ok then (True, print [''Published OK''] w3)
                 else (False, print [''Publish failed''] w3)))"

section \<open>The timer interrupt and the main loop\<close>

definition timer_callback :: "world \<Rightarrow> world" where
  "timer_callback w = w\<lparr>measure_pending := True\<rparr>"

text \<open>
  A point of the main loop where the timer interrupt can be serviced: the callback runs
  there when the oracle says so. The callback only writes \<open>measure_pending\<close>, which
  nothing but the main loop's test and clear reads or writes, so an interrupt inside
  a call of the loop body has the effect of one at the point after that call.
\<close>

definition irq_point :: "env \<Rightarrow> world \<Rightarrow> world" where
  "irq_point e w =
     (let w' = w\<lparr>n_irq := Suc (n_irq w)\<rparr>
      in if irq_fires e (n_irq w) then timer_callback w' else w')"



text \<open>
  The test and clear of lines 176-177, with the interrupt points before the test and
  between the test and the assignment. The result says whether the flag was seen set.
\<close>

definition take_pending :: "env \<Rightarrow> world \<Rightarrow> bool \<times> world" where
  "take_pending e w =
     (let w1 = irq_point e w;
          pending = measure_pending w1;
          w2 = irq_point e w1
      in if pending then (True, w2\<lparr>measure_pending := False\<rparr>) else (False, w2))"

text \<open>Lines 178-185: the body of \<^verbatim>\<open>if measure_pending\<close> after the clear.\<close>

definition run_pending :: "env \<Rightarrow> world \<Rightarrow> world" where
  "run_pending e w =
     (let w1 = irq_point e w;
          w2 = w1\<lparr>last_measure_time := time_time w1\<rparr>;
          (success, w3) = measure_and_publish e w2;
          w4 = irq_point e w3
      in if \<not> success then
           (let w5 = print [''Attempting reconnect in 5s...''] w4;
                w6 = irq_point e (sleep 5000 w5);
                (_, w7) = mqtt_connect e w6
            in irq_point e w7)
         else w4)"

text \<open>One pass through the body of \<^verbatim>\<open>while True\<close> (lines 176-187).\<close>

definition main_iteration :: "env \<Rightarrow> world \<Rightarrow> world" where
  "main_iteration e w =
     (let (pending, w1) = take_pending e w;
          w2 = (if pending then run_pending e w1 else w1)
      in irq_point e (sleep 100 w2))"


text \<open>How many times the device has been restarted.\<close>

definition resets :: "world \<Rightarrow> nat" where
  "resets w = length (filter (\<lambda>ev. ev = Machine_reset) (trace w))"

section \<open>Example inputs\<close>

text \<open>
  A configuration, a well-behaved environment (the link is up, no library call raises,
  the sensor reads 24 degrees and 55 percent, no interrupt) and the state of the globals
  when the module is loaded. The theorems below are instantiated at variations of them.
\<close>

definition example_cfg :: config where
  "example_cfg =
     \<lparr>WIFI_SSID = ''net'', WIFI_PASS = ''pw'', AWS_ENDPOINT = ''broker'', AWS_PORT = 8883,
      DEVICE_CERT = ''/certificate.pem.crt'', DEVICE_KEY = ''/private.pem.key'',
      THING_NAME = ''T1'', MEASURE_INTERVAL_MS = 5000\<rparr>"

definition example_env :: env where
  "example_env =
     \<lparr>cfg = example_cfg, unique_id_hex = ''a1b2'', wlan_isconnected = (\<lambda>t. True),
      wlan_ip = ''10.0.0.2'', connect_raises = (\<lambda>k. None), publish_raises = (\<lambda>k. None),
      disconnect_raises = (\<lambda>k. None), dht_read = (\<lambda>k. Inr (24, 55)),
      irq_fires = (\<lambda>k. False)\<rparr>"

definition example_world :: world where
  "example_world =
     \<lparr>measure_pending = False, last_measure_time = 0, wifi_connected = False,
      mqtt_client = None, clock_ms = 1700000000000, n_connect = 0, n_publish = 0,
      n_disconnect = 0, n_dht = 0, n_irq = 0, trace = []\<rparr>"

lemmas io_defs = emit_def print_def sleep_def time_time_def
lemmas ex_defs = example_cfg_def example_env_def example_world_def

section \<open>The secure session: failures, lazy connect, reconnect\<close>

text \<open>
  C4. Every failing session operation leaves the session disconnected. Whenever
  \<open>mqtt_connect\<close> returns \<open>False\<close>, \<open>mqtt_client\<close> is \<open>None\<close>, and it returns
  \<open>False\<close> whenever the library's connect raises. Whenever \<open>mqtt_publish\<close> returns
  \<open>False\<close>, \<open>mqtt_client\<close> is \<open>None\<close>; and whenever the send is reached (a client
  exists already, or the connect that \<open>mqtt_publish\<close> makes first succeeds) and the
  library's publish raises, \<open>mqtt_publish\<close> attempts a disconnect, returns \<open>False\<close>
  and leaves \<open>mqtt_client\<close> \<open>None\<close>, so the next publish has to connect again. The
  same holds when the connect that \<open>mqtt_publish\<close> makes first raises.
\<close>

theorem session_failure_disconnects:
  "(\<not> fst (mqtt_connect e w) \<longrightarrow> mqtt_client (snd (mqtt_connect e w)) = None) \<and>
   (connect_raises e (n_connect w) \<noteq> None \<longrightarrow>
      \<not> fst (mqtt_connect e w) \<and> mqtt_client (snd (mqtt_connect e w)) = None) \<and>
   (\<not> fst (mqtt_publish e p w) \<longrightarrow> mqtt_client (snd (mqtt_publish e p w)) = None) \<and>
   ((mqtt_client w \<noteq> None \<or> connect_raises e (n_connect w) = None) \<and>
    publish_raises e (n_publish w) \<noteq> None \<longrightarrow>
      \<not> fst (mqtt_publish e p w) \<and>
      mqtt_client (snd (mqtt_publish e p w)) = None \<and>
      n_disconnect (snd (mqtt_publish e p w)) = Suc (n_disconnect w) \<and>
      last (trace (snd (mqtt_publish e p w))) = Mqtt_disconnect) \<and>
   (mqtt_client w = None \<and> connect_raises e (n_connect w) \<noteq> None \<longrightarrow>
      \<not> fst (mqtt_publish e p w) \<and>
      mqtt_client (snd (mqtt_publish e p w)) = None \<and>
      n_publish (snd (mqtt_publish e p w)) = n_publish w)"
  by (auto simp: mqtt_connect_def mqtt_publish_def publish_failed_def Let_def io_defs
           split: option.splits prod.splits if_splits)

theorem session_failure_disconnects_witness:
  "connect_raises (example_env\<lparr>connect_raises := (\<lambda>k. Some ''ECONNRESET'')\<rparr>)
       (n_connect example_world) \<noteq> None \<and>
   \<not> fst (mqtt_connect (example_env\<lparr>connect_raises := (\<lambda>k. Some ''ECONNRESET'')\<rparr>)
            example_world) \<and>
   mqtt_client (snd (mqtt_connect (example_env\<lparr>connect_raises := (\<lambda>k. Some ''ECONNRESET'')\<rparr>)
                       example_world)) = None \<and>
   mqtt_client (example_world\<lparr>mqtt_client := Some (make_mqtt_client example_env)\<rparr>) \<noteq> None \<and>
   publish_raises (example_env\<lparr>publish_raises := (\<lambda>k. Some ''EPIPE'')\<rparr>)
       (n_publish example_world) \<noteq> None \<and>
   \<not> fst (mqtt_publish (example_env\<lparr>publish_raises := (\<lambda>k. Some ''EPIPE'')\<rparr>) ''{}''
            (example_world\<lparr>mqtt_client := Some (make_mqtt_client example_env)\<rparr>)) \<and>
   mqtt_client (snd (mqtt_publish (example_env\<lparr>publish_raises := (\<lambda>k. Some ''EPIPE'')\<rparr>) ''{}''
            (example_world\<lparr>mqtt_client := Some (make_mqtt_client example_env)\<rparr>))) = None \<and>
   mqtt_client example_world = None \<and>
   connect_raises (example_env\<lparr>publish_raises := (\<lambda>k. Some ''EPIPE'')\<rparr>)
       (n_connect example_world) = None \<and>
   \<not> fst (mqtt_publish (example_env\<lparr>publish_raises := (\<lambda>k. Some ''EPIPE'')\<rparr>) ''{}''
            example_world) \<and>
   mqtt_client (snd (mqtt_publish (example_env\<lparr>publish_raises := (\<lambda>k. Some ''EPIPE'')\<rparr>) ''{}''
            example_world)) = None \<and>
   n_disconnect (snd (mqtt_publish (example_env\<lparr>publish_raises := (\<lambda>k. Some ''EPIPE'')\<rparr>) ''{}''
            example_world)) = 1 \<and>
   \<not> fst (mqtt_publish (example_env\<lparr>connect_raises := (\<lambda>k. Some ''ECONNRESET'')\<rparr>) ''{}''
            example_world) \<and>
   n_publish (snd (mqtt_publish (example_env\<lparr>connect_raises := (\<lambda>k. Some ''ECONNRESET'')\<rparr>) ''{}''
            example_world)) = 0"
  using session_failure_disconnects
          [of "example_env\<lparr>connect_raises := (\<lambda>k. Some ''ECONNRESET'')\<rparr>" example_world "''{}''"]
        session_failure_disconnects
          [of "example_env\<lparr>publish_raises := (\<lambda>k. Some ''EPIPE'')\<rparr>"
              "example_world\<lparr>mqtt_client := Some (make_mqtt_client example_env)\<rparr>" "''{}''"]
        session_failure_disconnects
          [of "example_env\<lparr>publish_raises := (\<lambda>k. Some ''EPIPE'')\<rparr>" example_world "''{}''"]
  by (simp add: ex_defs)

text \<open>
  C2, as stated, fails: \<open>mqtt_publish\<close> called with no session does not fail at once.
  With a broker that accepts the connection it connects, sends and returns \<open>True\<close>.
\<close>

theorem publish_without_session_counterexample:
  "mqtt_client example_world = None \<and>
   mqtt_publish example_env ''{}'' example_world =
     (True, example_world\<lparr>mqtt_client := Some (make_mqtt_client example_env),
        n_connect := 1, n_publish := 1,
        trace := [Print [''Connecting to AWS IoT MQTT...''],
                  Mqtt_connect (make_mqtt_client example_env),
                  Print [''MQTT connected''],
                  Mqtt_publish ''devices/T1/telemetry'' ''{}'']\<rparr>)"
  by (simp add: ex_defs mqtt_publish_def mqtt_connect_def io_defs MQTT_TOPIC_def Let_def)

text \<open>
  C2, amended. A call of \<open>mqtt_publish\<close> with no session first makes exactly one connect
  attempt. When that attempt raises, the call returns \<open>False\<close>, nothing is sent and the
  session stays disconnected. When it succeeds, the payload is sent on the new session
  and the call returns whether the send succeeded.
\<close>

theorem publish_without_session_connects_first:
  assumes "mqtt_client w = None"
  shows "(\<forall>ex. connect_raises e (n_connect w) = Some ex \<longrightarrow>
            mqtt_publish e p w =
              (False, w\<lparr>n_connect := Suc (n_connect w),
                 trace := trace w @ [Print [''Connecting to AWS IoT MQTT...''],
                                     Mqtt_connect (make_mqtt_client e),
                                     Print [''MQTT connection failed:'', ex]]\<rparr>)) \<and>
         (connect_raises e (n_connect w) = None \<longrightarrow>
            fst (mqtt_publish e p w) = (publish_raises e (n_publish w) = None) \<and>
            n_connect (snd (mqtt_publish e p w)) = Suc (n_connect w) \<and>
            n_publish (snd (mqtt_publish e p w)) = Suc (n_publish w) \<and>
            take 4 (drop (length (trace w)) (trace (snd (mqtt_publish e p w)))) =
              [Print [''Connecting to AWS IoT MQTT...''],
               Mqtt_connect (make_mqtt_client e),
               Print [''MQTT connected''],
               Mqtt_publish (MQTT_TOPIC (cfg e)) p])"
  using assms
  by (auto simp: mqtt_publish_def mqtt_connect_def publish_failed_def io_defs Let_def
           split: option.splits)

theorem publish_without_session_connects_first_witness:
  "mqtt_client example_world = None \<and>
   connect_raises (example_env\<lparr>connect_raises := (\<lambda>k. Some ''ECONNRESET'')\<rparr>)
       (n_connect example_world) = Some ''ECONNRESET'' \<and>
   mqtt_publish (example_env\<lparr>connect_raises := (\<lambda>k. Some ''ECONNRESET'')\<rparr>) ''{}'' example_world =
     (False, example_world\<lparr>n_connect := 1,
        trace := [Print [''Connecting to AWS IoT MQTT...''],
                  Mqtt_connect (make_mqtt_client example_env),
                  Print [''MQTT connection failed:'', ''ECONNRESET'']]\<rparr>) \<and>
   connect_raises example_env (n_connect example_world) = None \<and>
   fst (mqtt_publish example_env ''{}'' example_world) \<and>
   n_connect (snd (mqtt_publish example_env ''{}'' example_world)) = 1 \<and>
   n_publish (snd (mqtt_publish example_env ''{}'' example_world)) = 1"
proof -
  have n: "mqtt_client example_world = None"
    by (simp add: ex_defs)
  show ?thesis
    using publish_without_session_connects_first
            [OF n, of "example_env\<lparr>connect_raises := (\<lambda>k. Some ''ECONNRESET'')\<rparr>" "''{}''"]
          publish_without_session_connects_first [OF n, of example_env "''{}''"]
    by (simp add: ex_defs make_mqtt_client_def)
qed

text \<open>
  C3, as stated, fails: \<open>mqtt_connect\<close> called while a session exists is not a no-op.
  It calls the library's connect on the existing client again, and when that call
  raises, the session that existed is dropped.
\<close>

theorem connect_with_session_counterexample:
  "mqtt_client (example_world\<lparr>mqtt_client := Some (make_mqtt_client example_env)\<rparr>) \<noteq> None \<and>
   trace (snd (mqtt_connect example_env
                 (example_world\<lparr>mqtt_client := Some (make_mqtt_client example_env)\<rparr>))) =
     [Print [''Connecting to AWS IoT MQTT...''],
      Mqtt_connect (make_mqtt_client example_env),
      Print [''MQTT connected'']] \<and>
   mqtt_connect (example_env\<lparr>connect_raises := (\<lambda>k. Some ''ECONNRESET'')\<rparr>)
       (example_world\<lparr>mqtt_client := Some (make_mqtt_client example_env)\<rparr>) =
     (False, example_world\<lparr>mqtt_client := None, n_connect := 1,
        trace := [Print [''Connecting to AWS IoT MQTT...''],
                  Mqtt_connect (make_mqtt_client example_env),
                  Print [''MQTT connection failed:'', ''ECONNRESET'']]\<rparr>)"
  by (simp add: ex_defs mqtt_connect_def io_defs Let_def)

text \<open>
  C3, amended. A call of \<open>mqtt_connect\<close> while a client object exists creates no new
  client object and calls the library's connect on the existing one. When that call
  succeeds, \<open>mqtt_connect\<close> returns \<open>True\<close> and \<open>mqtt_client\<close> is unchanged; when it
  raises, \<open>mqtt_connect\<close> returns \<open>False\<close> and \<open>mqtt_client\<close> becomes \<open>None\<close>.
\<close>

theorem connect_with_session_reconnects:
  assumes "mqtt_client w = Some c"
  shows "(connect_raises e (n_connect w) = None \<longrightarrow>
            mqtt_connect e w =
              (True, w\<lparr>n_connect := Suc (n_connect w),
                 trace := trace w @ [Print [''Connecting to AWS IoT MQTT...''],
                                     Mqtt_connect c, Print [''MQTT connected'']]\<rparr>)) \<and>
         (\<forall>ex. connect_raises e (n_connect w) = Some ex \<longrightarrow>
            mqtt_connect e w =
              (False, w\<lparr>mqtt_client := None, n_connect := Suc (n_connect w),
                 trace := trace w @ [Print [''Connecting to AWS IoT MQTT...''],
                                     Mqtt_connect c,
                                     Print [''MQTT connection failed:'', ex]]\<rparr>))"
  using assms
  by (auto simp: mqtt_connect_def io_defs Let_def)

theorem connect_with_session_reconnects_witness:
  "mqtt_client (example_world\<lparr>mqtt_client := Some (make_mqtt_client example_env)\<rparr>) =
     Some (make_mqtt_client example_env) \<and>
   connect_raises example_env
     (n_connect (example_world\<lparr>mqtt_client := Some (make_mqtt_client example_env)\<rparr>)) = None \<and>
   mqtt_connect example_env (example_world\<lparr>mqtt_client := Some (make_mqtt_client example_env)\<rparr>) =
     (True, example_world\<lparr>mqtt_client := Some (make_mqtt_client example_env), n_connect := 1,
        trace := [Print [''Connecting to AWS IoT MQTT...''],
                  Mqtt_connect (make_mqtt_client example_env),
                  Print [''MQTT connected'']]\<rparr>)"
proof -
  have s: "mqtt_client (example_world\<lparr>mqtt_client := Some (make_mqtt_client example_env)\<rparr>) =
             Some (make_mqtt_client example_env)"
    by simp
  show ?thesis
    using connect_with_session_reconnects [OF s, of example_env]
    by (simp add: ex_defs)
qed

section \<open>The main loop: flag, cycle and backoff\<close>

text \<open>
  What an interrupt point and the functions called by the loop body do to the flag and
  to the counters.
\<close>

lemma irq_point_simps [simp]:
  "measure_pending (irq_point e w) = (measure_pending w \<or> irq_fires e (n_irq w))"
  "n_irq (irq_point e w) = Suc (n_irq w)"
  "trace (irq_point e w) = trace w"
  "clock_ms (irq_point e w) = clock_ms w"
  "mqtt_client (irq_point e w) = mqtt_client w"
  "n_connect (irq_point e w) = n_connect w"
  "n_publish (irq_point e w) = n_publish w"
  "n_dht (irq_point e w) = n_dht w"
  by (simp_all add: irq_point_def timer_callback_def Let_def)

lemma mqtt_connect_flag [simp]:
  "measure_pending (snd (mqtt_connect e w)) = measure_pending w"
  "n_irq (snd (mqtt_connect e w)) = n_irq w"
  "n_dht (snd (mqtt_connect e w)) = n_dht w"
  by (simp_all add: mqtt_connect_def io_defs Let_def split: option.splits)

lemma mqtt_publish_flag [simp]:
  "measure_pending (snd (mqtt_publish e p w)) = measure_pending w"
  "n_irq (snd (mqtt_publish e p w)) = n_irq w"
  "n_dht (snd (mqtt_publish e p w)) = n_dht w"
  by (auto simp: mqtt_publish_def mqtt_connect_def publish_failed_def io_defs Let_def
           split: option.splits prod.splits)

lemma measure_and_publish_flag [simp]:
  "measure_pending (snd (measure_and_publish e w)) = measure_pending w"
  "n_irq (snd (measure_and_publish e w)) = n_irq w"
  "n_dht (snd (measure_and_publish e w)) = Suc (n_dht w)"
  by (simp_all add: measure_and_publish_def io_defs Let_def case_prod_beta split: sum.splits)

lemma take_pending_simps:
  "fst (take_pending e w) = (measure_pending w \<or> irq_fires e (n_irq w))"
  "measure_pending (snd (take_pending e w)) =
     (\<not> fst (take_pending e w) \<and> irq_fires e (Suc (n_irq w)))"
  "n_irq (snd (take_pending e w)) = Suc (Suc (n_irq w))"
  "n_dht (snd (take_pending e w)) = n_dht w"
  "trace (snd (take_pending e w)) = trace w"
  by (auto simp: take_pending_def Let_def)

lemma run_pending_n_irq:
  "n_irq (run_pending e w) =
     (if fst (measure_and_publish e ((irq_point e w)\<lparr>last_measure_time := time_time (irq_point e w)\<rparr>))
      then Suc (Suc (n_irq w)) else Suc (Suc (Suc (Suc (n_irq w)))))"
  by (simp add: run_pending_def io_defs Let_def case_prod_beta)

lemma ex_below_Suc:
  "a \<le> b \<Longrightarrow> (\<exists>j. a \<le> j \<and> j < Suc b \<and> P j) = ((\<exists>j. a \<le> j \<and> j < b \<and> P j) \<or> P b)"
  by (auto simp: less_Suc_eq)

lemma ex_below_self: "(\<exists>j. (a::nat) \<le> j \<and> j < a \<and> P j) = False"
  by auto

lemma run_pending_flag:
  "measure_pending (run_pending e w) =
     (measure_pending w \<or> (\<exists>j. n_irq w \<le> j \<and> j < n_irq (run_pending e w) \<and> irq_fires e j))"
proof -
  have two: "(\<exists>j. n \<le> j \<and> j < Suc (Suc n) \<and> P j) = (P n \<or> P (Suc n))" for n :: nat and P
    by (simp add: ex_below_Suc ex_below_self)
  have four: "(\<exists>j. n \<le> j \<and> j < Suc (Suc (Suc (Suc n))) \<and> P j) = (P n \<or> P (Suc n) \<or> P (Suc (Suc n)) \<or> P (Suc (Suc (Suc n))))"
    for n :: nat and P
    by (simp add: ex_below_Suc ex_below_self disj_ac)
  show ?thesis
    unfolding run_pending_n_irq
    by (auto simp: two four run_pending_def io_defs Let_def case_prod_beta)
qed

lemma run_pending_n_dht: "n_dht (run_pending e w) = Suc (n_dht w)"
  by (simp add: run_pending_def io_defs Let_def case_prod_beta)

lemma main_iteration_n_irq:
  "n_irq (main_iteration e w) =
     Suc (if fst (take_pending e w) then n_irq (run_pending e (snd (take_pending e w)))
          else n_irq (snd (take_pending e w)))"
  by (simp add: main_iteration_def io_defs Let_def case_prod_beta)

lemma main_iteration_n_dht:
  "n_dht (main_iteration e w) = (if measure_pending w \<or> irq_fires e (n_irq w) then Suc (n_dht w) else n_dht w)"
  by (simp add: main_iteration_def io_defs Let_def case_prod_beta run_pending_n_dht take_pending_simps)

lemma main_iteration_flag:
  "measure_pending (main_iteration e w) =
     (measure_pending (snd (take_pending e w)) \<or>
      (\<exists>j. n_irq (snd (take_pending e w)) \<le> j \<and> j < n_irq (main_iteration e w) \<and> irq_fires e j))"
proof -
  have le: "n_irq w' \<le> n_irq (run_pending e w')" for w'
    by (simp add: run_pending_n_irq)
  show ?thesis
    unfolding main_iteration_n_irq
    by (auto simp: ex_below_Suc le main_iteration_def io_defs Let_def case_prod_beta run_pending_flag)
qed

text \<open>
  C1 describes a sensor failure as leaving the loop without backoff; the code does not
  do that. In a pass where the sensor read raises, \<open>measure_and_publish\<close> returns
  \<open>False\<close> having sent nothing and left the session alone, and the loop, which only
  sees \<open>False\<close>, then sleeps five seconds and calls \<open>mqtt_connect\<close> on the session
  that was connected all along.
\<close>

theorem sensor_failure_takes_backoff:
  "measure_and_publish (example_env\<lparr>dht_read := (\<lambda>k. Inl ''checksum'')\<rparr>)
       (example_world\<lparr>measure_pending := True, mqtt_client := Some (make_mqtt_client example_env)\<rparr>) =
     (False, example_world\<lparr>measure_pending := True, mqtt_client := Some (make_mqtt_client example_env),
        n_dht := 1, trace := [Dht_measure, Print [''Sensor read failed:'', ''checksum'']]\<rparr>) \<and>
   trace (main_iteration (example_env\<lparr>dht_read := (\<lambda>k. Inl ''checksum'')\<rparr>)
       (example_world\<lparr>measure_pending := True, mqtt_client := Some (make_mqtt_client example_env)\<rparr>)) =
     [Dht_measure,
      Print [''Sensor read failed:'', ''checksum''],
      Print [''Attempting reconnect in 5s...''],
      Sleep 5000,
      Print [''Connecting to AWS IoT MQTT...''],
      Mqtt_connect (make_mqtt_client example_env),
      Print [''MQTT connected''],
      Sleep 100]"
  by (simp add: ex_defs main_iteration_def take_pending_def run_pending_def measure_and_publish_def
        mqtt_connect_def irq_point_def io_defs Let_def)

text \<open>
  C5. When the cycle of a pass returns \<open>False\<close>, the rest of the pass is exactly: the
  message, a sleep of 5000 ms, one call of \<open>mqtt_connect\<close> (one call of the library's
  connect), and the 100 ms sleep that ends every pass of the loop, whether that connect
  succeeded or raised.
\<close>

theorem backoff_step:
  assumes "take_pending e w = (True, w1)"
      and "measure_and_publish e
             ((irq_point e w1)\<lparr>last_measure_time := time_time (irq_point e w1)\<rparr>) = (False, w3)"
  shows "trace (main_iteration e w) =
           trace w3 @
           [Print [''Attempting reconnect in 5s...''],
            Sleep 5000,
            Print [''Connecting to AWS IoT MQTT...''],
            Mqtt_connect (case mqtt_client w3 of None \<Rightarrow> make_mqtt_client e | Some c \<Rightarrow> c),
            Print (case connect_raises e (n_connect w3) of
                     None \<Rightarrow> [''MQTT connected'']
                   | Some ex \<Rightarrow> [''MQTT connection failed:'', ex]),
            Sleep 100] \<and>
         n_connect (main_iteration e w) = Suc (n_connect w3) \<and>
         clock_ms (main_iteration e w) = clock_ms w3 + 5100"
  using assms
  by (simp add: main_iteration_def run_pending_def mqtt_connect_def io_defs Let_def
           split: option.splits)

theorem backoff_step_witness:
  "take_pending example_env (example_world\<lparr>measure_pending := True\<rparr>) =
     (True, example_world\<lparr>n_irq := 2\<rparr>) \<and>
   measure_and_publish (example_env\<lparr>publish_raises := (\<lambda>k. Some ''EPIPE'')\<rparr>)
       ((irq_point example_env (example_world\<lparr>n_irq := 2\<rparr>))
          \<lparr>last_measure_time := time_time (irq_point example_env (example_world\<lparr>n_irq := 2\<rparr>))\<rparr>) =
     (False, example_world\<lparr>last_measure_time := 1700000000, n_connect := 1, n_publish := 1,
        n_disconnect := 1, n_dht := 1, n_irq := 3,
        trace := [Dht_measure,
                  Print [''Publishing:'', json_dumps (make_payload ''T1'' 1700000000 24 55)],
                  Print [''Connecting to AWS IoT MQTT...''],
                  Mqtt_connect (make_mqtt_client example_env),
                  Print [''MQTT connected''],
                  Mqtt_publish ''devices/T1/telemetry''
                    (json_dumps (make_payload ''T1'' 1700000000 24 55)),
                  Print [''Publish failed, will try reconnect:'', ''EPIPE''],
                  Mqtt_disconnect,
                  Print [''Publish failed'']]\<rparr>) \<and>
   drop 9 (trace (main_iteration (example_env\<lparr>publish_raises := (\<lambda>k. Some ''EPIPE'')\<rparr>)
                    (example_world\<lparr>measure_pending := True\<rparr>))) =
     [Print [''Attempting reconnect in 5s...''],
      Sleep 5000,
      Print [''Connecting to AWS IoT MQTT...''],
      Mqtt_connect (make_mqtt_client example_env),
      Print [''MQTT connected''],
      Sleep 100]"
proof -
  let ?e = "example_env\<lparr>publish_raises := (\<lambda>k. Some ''EPIPE'')\<rparr>"
  let ?w = "example_world\<lparr>measure_pending := True\<rparr>"
  let ?w1 = "example_world\<lparr>n_irq := 2\<rparr>"
  have t: "take_pending ?e ?w = (True, ?w1)"
    by (simp add: ex_defs take_pending_def irq_point_def Let_def)
  have t': "take_pending example_env ?w = (True, ?w1)"
    by (simp add: ex_defs take_pending_def irq_point_def Let_def)
  have i: "irq_point ?e ?w1 = irq_point example_env ?w1"
    by (simp add: ex_defs irq_point_def Let_def)
  have m: "measure_and_publish ?e
             ((irq_point ?e ?w1)\<lparr>last_measure_time := time_time (irq_point ?e ?w1)\<rparr>) =
     (False, example_world\<lparr>last_measure_time := 1700000000, n_connect := 1, n_publish := 1,
        n_disconnect := 1, n_dht := 1, n_irq := 3,
        trace := [Dht_measure,
                  Print [''Publishing:'', json_dumps (make_payload ''T1'' 1700000000 24 55)],
                  Print [''Connecting to AWS IoT MQTT...''],
                  Mqtt_connect (make_mqtt_client example_env),
                  Print [''MQTT connected''],
                  Mqtt_publish ''devices/T1/telemetry''
                    (json_dumps (make_payload ''T1'' 1700000000 24 55)),
                  Print [''Publish failed, will try reconnect:'', ''EPIPE''],
                  Mqtt_disconnect,
                  Print [''Publish failed'']]\<rparr>)"
    by (simp add: ex_defs measure_and_publish_def mqtt_publish_def mqtt_connect_def
          publish_failed_def irq_point_def io_defs MQTT_TOPIC_def make_mqtt_client_def Let_def)
  show ?thesis
    using backoff_step [OF t m] t' m i
    by (simp add: ex_defs make_mqtt_client_def)
qed

text \<open>
  C9. The test and clear of the flag never loses a set of the timer callback. The
  interrupt is taken to be serviced between statements of the main loop: before the
  test, and between the test and the assignment. The take reports the flag set exactly
  when it was set before or is set by an interrupt before the test; an interrupt after a
  test that saw the flag clear leaves the flag set for the next take. So an interrupt
  at either point is seen by this take or leaves the flag set.
\<close>

theorem take_never_loses_a_set:
  "fst (take_pending e w) = (measure_pending w \<or> irq_fires e (n_irq w)) \<and>
   measure_pending (snd (take_pending e w)) =
     (\<not> fst (take_pending e w) \<and> irq_fires e (Suc (n_irq w))) \<and>
   n_irq (snd (take_pending e w)) = n_irq w + 2 \<and>
   ((\<exists>j. n_irq w \<le> j \<and> j < n_irq (snd (take_pending e w)) \<and> irq_fires e j) \<longrightarrow>
      fst (take_pending e w) \<or> measure_pending (snd (take_pending e w)))"
  by (auto simp: take_pending_simps less_Suc_eq)

theorem take_never_loses_a_set_witness:
  "n_irq example_world \<le> 1 \<and>
   1 < n_irq (snd (take_pending (example_env\<lparr>irq_fires := (\<lambda>k. k = 1)\<rparr>) example_world)) \<and>
   irq_fires (example_env\<lparr>irq_fires := (\<lambda>k. k = 1)\<rparr>) 1 \<and>
   \<not> fst (take_pending (example_env\<lparr>irq_fires := (\<lambda>k. k = 1)\<rparr>) example_world) \<and>
   measure_pending (snd (take_pending (example_env\<lparr>irq_fires := (\<lambda>k. k = 1)\<rparr>) example_world)) \<and>
   irq_fires (example_env\<lparr>irq_fires := (\<lambda>k. k = 1)\<rparr>)
     (n_irq (example_world\<lparr>measure_pending := True\<rparr>) + 1) \<and>
   fst (take_pending (example_env\<lparr>irq_fires := (\<lambda>k. k = 1)\<rparr>)
          (example_world\<lparr>measure_pending := True\<rparr>)) \<and>
   \<not> measure_pending (snd (take_pending (example_env\<lparr>irq_fires := (\<lambda>k. k = 1)\<rparr>)
          (example_world\<lparr>measure_pending := True\<rparr>)))"
  using take_never_loses_a_set [of "example_env\<lparr>irq_fires := (\<lambda>k. k = 1)\<rparr>" example_world]
        take_never_loses_a_set [of "example_env\<lparr>irq_fires := (\<lambda>k. k = 1)\<rparr>"
                                   "example_world\<lparr>measure_pending := True\<rparr>"]
  by (simp add: ex_defs)

text \<open>
  C10. The flag is cleared before the cycle starts, and nothing after that point clears
  it. So a timer interrupt at any interrupt point after the clear (during the cycle,
  after the backoff sleep, after the reconnect, after the polling sleep) leaves the
  flag set at the end of the pass, and the next pass runs a measurement.
\<close>

theorem tick_during_cycle_is_kept:
  assumes "n_irq (snd (take_pending e w)) \<le> j" and "j < n_irq (main_iteration e w)"
      and "irq_fires e j"
  shows "(fst (take_pending e w) \<longrightarrow> \<not> measure_pending (snd (take_pending e w))) \<and>
         measure_pending (main_iteration e w) \<and>
         n_dht (main_iteration e (main_iteration e w)) = Suc (n_dht (main_iteration e w))"
  using assms
  by (auto simp: main_iteration_flag main_iteration_n_dht take_pending_simps)

theorem tick_during_cycle_is_kept_witness:
  "n_irq (snd (take_pending (example_env\<lparr>publish_raises := (\<lambda>k. Some ''EPIPE''), irq_fires := (\<lambda>k. k = 4)\<rparr>)
                 (example_world\<lparr>measure_pending := True\<rparr>))) \<le> 4 \<and>
   4 < n_irq (main_iteration (example_env\<lparr>publish_raises := (\<lambda>k. Some ''EPIPE''), irq_fires := (\<lambda>k. k = 4)\<rparr>)
                 (example_world\<lparr>measure_pending := True\<rparr>)) \<and>
   irq_fires (example_env\<lparr>publish_raises := (\<lambda>k. Some ''EPIPE''), irq_fires := (\<lambda>k. k = 4)\<rparr>) 4 \<and>
   measure_pending (main_iteration (example_env\<lparr>publish_raises := (\<lambda>k. Some ''EPIPE''), irq_fires := (\<lambda>k. k = 4)\<rparr>)
                 (example_world\<lparr>measure_pending := True\<rparr>)) \<and>
   n_dht (main_iteration (example_env\<lparr>publish_raises := (\<lambda>k. Some ''EPIPE''), irq_fires := (\<lambda>k. k = 4)\<rparr>)
           (main_iteration (example_env\<lparr>publish_raises := (\<lambda>k. Some ''EPIPE''), irq_fires := (\<lambda>k. k = 4)\<rparr>)
                 (example_world\<lparr>measure_pending := True\<rparr>))) = 2"
proof -
  let ?e = "example_env\<lparr>publish_raises := (\<lambda>k. Some ''EPIPE''), irq_fires := (\<lambda>k. k = 4)\<rparr>"
  let ?w = "example_world\<lparr>measure_pending := True\<rparr>"
  have a: "n_irq (snd (take_pending ?e ?w)) \<le> 4"
    by (simp add: take_pending_simps ex_defs)
  have n: "n_irq (main_iteration ?e ?w) = 7"
    by (simp add: ex_defs main_iteration_def run_pending_def take_pending_def
          measure_and_publish_def mqtt_publish_def mqtt_connect_def publish_failed_def
          irq_point_def timer_callback_def io_defs Let_def)
  have b: "4 < n_irq (main_iteration ?e ?w)"
    by (simp add: n)
  have c: "irq_fires ?e 4"
    by (simp add: ex_defs)
  have d: "n_dht (main_iteration ?e ?w) = 1"
    by (simp add: main_iteration_n_dht) (simp add: ex_defs)
  show ?thesis
    using tick_during_cycle_is_kept [OF a b c] a b c d
    by simp
qed

section \<open>Network bring-up and restart\<close>

text \<open>
  No function called after the bring-up restarts the device, and the polling loop times
  out only at a poll where more than 15 whole seconds have passed.
\<close>

lemma resets_io [simp]:
  "resets (print args w) = resets w"
  "resets (sleep ms w) = resets w"
  "ev \<noteq> Machine_reset \<Longrightarrow> resets (emit ev w) = resets w"
  "resets (emit Machine_reset w) = Suc (resets w)"
  "resets (irq_point e w) = resets w"
  by (simp_all add: resets_def io_defs irq_point_def timer_callback_def Let_def)

lemma resets_upd [simp]:
  "resets (w\<lparr>wifi_connected := b\<rparr>) = resets w"
  "resets (w\<lparr>last_measure_time := t\<rparr>) = resets w"
  "resets (w\<lparr>measure_pending := p\<rparr>) = resets w"
  "resets (w\<lparr>n_dht := n\<rparr>) = resets w"
  by (simp_all add: resets_def)

lemma resets_mqtt_connect [simp]: "resets (snd (mqtt_connect e w)) = resets w"
  by (simp add: resets_def mqtt_connect_def io_defs Let_def split: option.splits)

lemma resets_mqtt_publish [simp]: "resets (snd (mqtt_publish e p w)) = resets w"
  by (simp add: resets_def mqtt_publish_def mqtt_connect_def publish_failed_def io_defs Let_def
           split: option.splits)

lemma resets_measure_and_publish [simp]: "resets (snd (measure_and_publish e w)) = resets w"
  by (simp add: measure_and_publish_def Let_def case_prod_beta split: sum.splits)

lemma resets_take_pending [simp]: "resets (snd (take_pending e w)) = resets w"
  by (simp add: take_pending_def Let_def)

lemma resets_run_pending [simp]: "resets (run_pending e w) = resets w"
  by (simp add: run_pending_def Let_def case_prod_beta)

lemma resets_main_iteration [simp]: "resets (main_iteration e w) = resets w"
  by (simp add: main_iteration_def Let_def case_prod_beta)


lemma wifi_wait_resets [simp]: "resets (snd (wifi_wait e start w)) = resets w"
proof (induction e start w rule: wifi_wait.induct)
  case (1 e start w)
  then show ?case
    by (subst wifi_wait.simps) simp
qed



lemma connect_wifi_resets [simp]: "resets (snd (connect_wifi e w)) = resets w"
  by (simp add: connect_wifi_def Let_def case_prod_beta)







section \<open>The wire payload\<close>

text \<open>
  Reading back what \<open>json_dumps\<close> writes gives the dictionary that was written:
  numbers first, then strings with their escapes, then items and the whole object.
\<close>

lemma is_digit_digit_char: "d < 10 \<Longrightarrow> is_digit (digit_char d)"
  by (simp add: is_digit_def digit_char_def)

lemma digit_val_digit_char: "d < 10 \<Longrightarrow> digit_val (digit_char d) = d"
  by (simp add: digit_val_def digit_char_def)

lemma digits_all_digit: "\<forall>c \<in> set (digits n). is_digit c"
proof (induction n rule: digits.induct)
  case (1 n)
  then show ?case
    by (subst digits.simps) (auto simp: is_digit_digit_char)
qed

lemma digits_not_Nil: "digits n \<noteq> []"
  by (subst digits.simps) simp

lemma digits_value: "foldl (\<lambda>a c. 10 * a + digit_val c) 0 (digits n) = n"
proof (induction n rule: digits.induct)
  case (1 n)
  show ?case
  proof (cases "n < 10")
    case True
    then show ?thesis
      by (subst digits.simps) (simp add: digit_val_digit_char)
  next
    case False
    with 1 show ?thesis
      by (subst digits.simps) (simp add: digit_val_digit_char)
  qed
qed

lemma takeWhile_digits:
  "no_digit_ahead r \<Longrightarrow> takeWhile is_digit (digits n @ r) = digits n"
  "no_digit_ahead r \<Longrightarrow> dropWhile is_digit (digits n @ r) = r"
  using digits_all_digit [of n]
  by (auto simp: no_digit_ahead_def takeWhile_append2 dropWhile_append2 split: list.splits)

lemma read_nat_digits: "no_digit_ahead r \<Longrightarrow> read_nat (digits n @ r) = Some (n, r)"
  by (simp add: read_nat_def takeWhile_digits digits_not_Nil digits_value)

lemma hd_digits: "\<exists>c s. digits n = c # s \<and> c \<noteq> CHR ''-''"
proof -
  obtain c s where cs: "digits n = c # s"
    using digits_not_Nil [of n] by (cases "digits n") auto
  with digits_all_digit [of n] have "is_digit c"
    by simp
  then have "c \<noteq> CHR ''-''"
    by (auto simp: is_digit_def)
  with cs show ?thesis
    by blast
qed

lemma read_int_str_int: "no_digit_ahead r \<Longrightarrow> read_int (str_int i @ r) = Some (i, r)"
proof (cases "i < 0")
  case True
  assume "no_digit_ahead r"
  with True show ?thesis
    by (simp add: read_int_def str_int_def read_nat_digits)
next
  case False
  assume r: "no_digit_ahead r"
  obtain c s where cs: "digits (nat i) = c # s" "c \<noteq> CHR ''-''"
    using hd_digits by blast
  have "read_nat (digits (nat i) @ r) = Some (nat i, r)"
    using r by (rule read_nat_digits)
  with False cs show ?thesis
    by (simp add: read_int_def str_int_def)
qed

lemma read_str_body_quote: "read_str_body (CHR 0x22 # r) = Some ([], r)"
  by (cases r) simp_all

lemma read_str_body_plain:
  "rest \<noteq> [] \<Longrightarrow> c \<noteq> CHR 0x22 \<Longrightarrow> c \<noteq> CHR 0x5C \<Longrightarrow>
     read_str_body (c # rest) = cons_to c (read_str_body rest)"
  by (cases rest) simp_all

lemma read_str_body_escape:
  "e \<noteq> CHR ''u'' \<Longrightarrow>
     read_str_body (CHR 0x5C # e # rest) =
       (case unescape e of None \<Rightarrow> None | Some ch \<Rightarrow> cons_to ch (read_str_body rest))"
  by simp

lemma read_str_body_hex:
  "read_str_body (CHR 0x5C # CHR ''u'' # a # b # c # d # rest) =
     (case hex4 a b c d of None \<Rightarrow> None | Some ch \<Rightarrow> cons_to ch (read_str_body rest))"
  by simp

lemma hex_val_hex_char: "j < 16 \<Longrightarrow> hex_val (hex_char j) = Some j"
  by (auto simp: hex_val_def hex_char_def Let_def)

lemma hex_val_zero: "hex_val (CHR ''0'') = Some 0"
  by (simp add: hex_val_def Let_def)

lemma hex4_byte:
  assumes "(of_char c :: nat) < 32"
  shows "hex4 (CHR ''0'') (CHR ''0'') (hex_char ((of_char c :: nat) div 16))
           (hex_char ((of_char c :: nat) mod 16)) = Some c"
proof -
  let ?k = "of_char c :: nat"
  have a: "hex_val (hex_char (?k div 16)) = Some (?k div 16)"
    using assms by (intro hex_val_hex_char) simp
  have b: "hex_val (hex_char (?k mod 16)) = Some (?k mod 16)"
    by (intro hex_val_hex_char) simp
  have k: "?k div 16 * 16 + ?k mod 16 = ?k"
    by simp
  have lt: "?k < 256"
    using assms by simp
  show ?thesis
    by (simp add: hex4_def hex_val_zero a b Let_def k lt)
qed

lemma read_str_body_json_char:
  assumes "rest \<noteq> []"
  shows "read_str_body (json_char c @ rest) = cons_to c (read_str_body rest)"
proof -
  consider (q) "c = CHR 0x22 \<or> c = CHR 0x5C"
    | (p) "c \<noteq> CHR 0x22" "c \<noteq> CHR 0x5C" "32 \<le> (of_char c :: nat)"
    | (n) "c = CHR 0x0A" | (r) "c = CHR 0x0D" | (t) "c = CHR 0x09"
    | (h) "c \<noteq> CHR 0x22" "c \<noteq> CHR 0x5C" "\<not> 32 \<le> (of_char c :: nat)"
          "c \<noteq> CHR 0x0A" "c \<noteq> CHR 0x0D" "c \<noteq> CHR 0x09"
    by blast
  then show ?thesis
  proof cases
    case q
    then show ?thesis
      by (auto simp: json_char_def unescape_def)
  next
    case p
    with assms show ?thesis
      by (simp add: json_char_def read_str_body_plain)
  next
    case n
    then show ?thesis
      by (simp add: json_char_def unescape_def)
  next
    case r
    then show ?thesis
      by (simp add: json_char_def unescape_def)
  next
    case t
    then show ?thesis
      by (simp add: json_char_def unescape_def)
  next
    case h
    then have "(of_char c :: nat) < 32"
      by simp
    from hex4_byte [OF this] h show ?thesis
      by (simp add: json_char_def)
  qed
qed

lemma read_str_body_chars:
  "read_str_body (concat (map json_char s) @ CHR 0x22 # r) = Some (s, r)"
proof (induction s)
  case Nil
  show ?case
    by (simp add: read_str_body_quote)
next
  case (Cons c s)
  have "read_str_body (json_char c @ (concat (map json_char s) @ CHR 0x22 # r)) =
          cons_to c (read_str_body (concat (map json_char s) @ CHR 0x22 # r))"
    by (rule read_str_body_json_char) simp
  with Cons show ?case
    by (simp add: cons_to_def)
qed

lemma read_str_json_str: "read_str (json_str k @ r) = Some (k, r)"
  using read_str_body_chars [of k r]
  by (simp add: read_str_def json_str_def)

lemma skip_ws_simps:
  "skip_ws (CHR '' '' # s) = skip_ws s"
  "skip_ws (CHR 0x22 # s) = CHR 0x22 # s"
  "skip_ws (CHR '':'' # s) = CHR '':'' # s"
  "skip_ws (CHR '','' # s) = CHR '','' # s"
  "skip_ws (CHR ''{'' # s) = CHR ''{'' # s"
  "skip_ws (CHR ''}'' # s) = CHR ''}'' # s"
  "skip_ws (CHR ''-'' # s) = CHR ''-'' # s"
  "skip_ws [] = []"
  by (simp_all add: skip_ws_def is_blank_def)

lemma skip_ws_digit: "is_digit c \<Longrightarrow> skip_ws (c # s) = c # s"
  by (auto simp: skip_ws_def is_blank_def is_digit_def)

lemma skip_ws_str_int: "skip_ws (str_int i @ r) = str_int i @ r"
proof (cases "i < 0")
  case True
  then show ?thesis
    by (simp add: str_int_def skip_ws_simps)
next
  case False
  obtain c s where cs: "digits (nat i) = c # s"
    using hd_digits by blast
  with digits_all_digit [of "nat i"] have "is_digit c"
    by simp
  with False cs show ?thesis
    by (simp add: str_int_def skip_ws_digit)
qed

lemma str_int_head: "\<exists>c s. str_int i = c # s \<and> c \<noteq> CHR 0x22"
proof (cases "i < 0")
  case True
  then show ?thesis
    by (simp add: str_int_def)
next
  case False
  obtain c s where cs: "digits (nat i) = c # s"
    using hd_digits by blast
  with digits_all_digit [of "nat i"] have "is_digit c"
    by simp
  then have "c \<noteq> CHR 0x22"
    by (auto simp: is_digit_def)
  with False cs show ?thesis
    by (simp add: str_int_def)
qed

lemma read_value_json_value:
  "no_digit_ahead r \<Longrightarrow> read_value (skip_ws (json_value v @ r)) = Some (v, r)"
proof (cases v)
  case (JInt i)
  assume r: "no_digit_ahead r"
  obtain c s where cs: "str_int i = c # s" "c \<noteq> CHR 0x22"
    using str_int_head by blast
  have "read_int (str_int i @ r) = Some (i, r)"
    using r by (rule read_int_str_int)
  then have "read_int (c # s @ r) = Some (i, r)"
    by (simp add: cs)
  with cs have "read_value (str_int i @ r) = Some (JInt i, r)"
    by (simp add: read_value_def)
  with JInt show ?thesis
    by (simp add: skip_ws_str_int)
next
  case (JStr x)
  then show ?thesis
    using read_str_body_chars [of x r]
    by (simp add: json_str_def skip_ws_simps read_value_def)
qed

lemma read_item_json_item:
  "no_digit_ahead r \<Longrightarrow> read_item (json_item kv @ r) = Some (kv, r)"
  using read_str_json_str [of "fst kv" "CHR '':'' # CHR '' '' # json_value (snd kv) @ r"]
  by (simp add: read_item_def json_item_def skip_ws_simps read_value_json_value)

lemma json_items_head:
  "d \<noteq> [] \<Longrightarrow> \<exists>s. json_items d = CHR 0x22 # s"
  by (induction d rule: json_items.induct) (simp_all add: json_item_def json_str_def)

lemma no_digit_ahead_simps:
  "no_digit_ahead (CHR ''}'' # r)"
  "no_digit_ahead (CHR '','' # r)"
  by (simp_all add: no_digit_ahead_def is_digit_def)

lemma read_items_json_items:
  "d \<noteq> [] \<Longrightarrow> length d \<le> n \<Longrightarrow>
     read_items n (json_items d @ CHR ''}'' # r) = Some (d, r)"
proof (induction d arbitrary: n rule: json_items.induct)
  case 1
  then show ?case by simp
next
  case (2 kv)
  then obtain m where n: "n = Suc m"
    by (cases n) auto
  show ?case
    by (simp add: n read_item_json_item no_digit_ahead_simps skip_ws_simps)
next
  case (3 kv kv' kvs)
  then obtain m where n: "n = Suc m" and m: "length (kv' # kvs) \<le> m"
    by (cases n) auto
  obtain s where h: "json_items (kv' # kvs) = CHR 0x22 # s"
    using json_items_head [of "kv' # kvs"] by auto
  have sk: "skip_ws (json_items (kv' # kvs) @ CHR ''}'' # r) = json_items (kv' # kvs) @ CHR ''}'' # r"
    by (simp add: h skip_ws_simps)
  have it: "read_item (json_item kv @ CHR '','' # CHR '' '' # json_items (kv' # kvs) @ CHR ''}'' # r) =
              Some (kv, CHR '','' # CHR '' '' # json_items (kv' # kvs) @ CHR ''}'' # r)"
    by (rule read_item_json_item) (rule no_digit_ahead_simps)
  have rec: "read_items m (json_items (kv' # kvs) @ CHR ''}'' # r) = Some (kv' # kvs, r)"
    using "3.IH" [of m] m by simp
  show ?case
    using it rec sk
    by (simp add: n skip_ws_simps del: json_items.simps(3) read_items.simps)
       (simp add: skip_ws_simps sk rec)
qed

lemma length_json_items: "length d \<le> Suc (length (json_items d))"
  by (induction d rule: json_items.induct) (simp_all add: json_item_def json_str_def)

lemma json_loads_dumps: "json_loads (json_dumps d) = Some d"
proof (cases "d = []")
  case True
  then show ?thesis
    by (simp add: json_loads_def json_dumps_def skip_ws_simps)
next
  case False
  obtain s where h: "json_items d = CHR 0x22 # s"
    using json_items_head [OF False] by auto
  have "read_items (length (json_items d @ ''}'')) (json_items d @ CHR ''}'' # []) = Some (d, [])"
    using False length_json_items [of d] by (intro read_items_json_items) simp_all
  then have "read_items (Suc (Suc (length s))) (CHR 0x22 # s @ ''}'') = Some (d, [])"
    by (simp add: h)
  then show ?thesis
    by (simp add: json_loads_def json_dumps_def skip_ws_simps h del: read_items.simps)
qed

text \<open>
  C7. For every thing name, timestamp, temperature and humidity (any integers, negative
  ones included), the text that is written for the payload dictionary reads back as the
  same four items with the same values. The same holds for every flat dictionary, so it
  does not depend on the order in which the items are written.
\<close>

theorem payload_round_trip:
  "json_loads (json_dumps (make_payload thing ts temp hum)) =
     Some [(''thing'', JStr thing), (''timestamp'', JInt ts),
           (''temperature_C'', JInt temp), (''humidity_pct'', JInt hum)] \<and>
   json_loads (json_dumps d) = Some d"
  by (simp add: json_loads_dumps make_payload_def)

theorem payload_round_trip_witness:
  "json_loads (json_dumps (make_payload ''T1'' 1700000000 (- 3) 55)) =
     Some [(''thing'', JStr ''T1''), (''timestamp'', JInt 1700000000),
           (''temperature_C'', JInt (- 3)), (''humidity_pct'', JInt 55)] \<and>
   json_loads (json_dumps [(''humidity_pct'', JInt 55), (''thing'', JStr ''T1'')]) =
     Some [(''humidity_pct'', JInt 55), (''thing'', JStr ''T1'')]"
  using payload_round_trip [of "''T1''" 1700000000 "- 3" 55 "[(''humidity_pct'', JInt 55), (''thing'', JStr ''T1'')]"]
  by simp

text \<open>
  The text of the example of the spec, and the map that the spec's own rendering of it
  (without blanks) denotes.
\<close>

lemma mqtt_publish_success:
  assumes "fst (mqtt_publish e p w)"
  shows "last (trace (snd (mqtt_publish e p w))) = Mqtt_publish (MQTT_TOPIC (cfg e)) p"
    and "n_publish (snd (mqtt_publish e p w)) = Suc (n_publish w)"
  using assms
  by (auto simp: mqtt_publish_def mqtt_connect_def publish_failed_def io_defs Let_def
           split: option.splits if_splits)

lemma example_payload_text:
  \<open>json_dumps (make_payload ''T1'' 1700000000 24 55) =
     ''{"thing": "T1", "timestamp": 1700000000, "temperature_C": 24, "humidity_pct": 55}''\<close>
  by (simp add: json_dumps_def make_payload_def json_item_def json_str_def json_char_def
        str_int_def digits.simps digit_char_def char_of_def bit_0)

lemma example_compact_text:
  \<open>json_loads ''{"thing":"T1","timestamp":1700000000,"temperature_C":24,"humidity_pct":55}'' =
     Some [(''thing'', JStr ''T1''), (''timestamp'', JInt 1700000000),
           (''temperature_C'', JInt 24), (''humidity_pct'', JInt 55)]\<close>
  by (simp add: json_loads_def skip_ws_def is_blank_def read_item_def read_str_def read_value_def
        read_int_def read_nat_def is_digit_def digit_val_def cons_to_def unescape_def)

text \<open>
  C6. In every cycle that succeeds, exactly one message is published; it is the last
  thing the cycle does before it reports success, its topic is
  \<^verbatim>\<open>devices/<thing name>/telemetry\<close> with the thing name inserted as it is, and its
  body is the JSON text of a map with exactly the keys \<^verbatim>\<open>thing\<close>,
  \<^verbatim>\<open>timestamp\<close>, \<^verbatim>\<open>temperature_C\<close> and \<^verbatim>\<open>humidity_pct\<close>, holding the
  thing name, the clock's seconds and the two sensor values. At temperature 24,
  humidity 55, thing \<^verbatim>\<open>T1\<close> and time 1700000000 the body denotes the map of the
  spec's example, on topic \<^verbatim>\<open>devices/T1/telemetry\<close>.
\<close>

theorem published_message:
  assumes "fst (measure_and_publish e w)"
  shows "\<exists>temp hum.
           dht_read e (n_dht w) = Inr (temp, hum) \<and>
           last (butlast (trace (snd (measure_and_publish e w)))) =
             Mqtt_publish (''devices/'' @ THING_NAME (cfg e) @ ''/telemetry'')
               (json_dumps (make_payload (THING_NAME (cfg e)) (time_time w) temp hum)) \<and>
           n_publish (snd (measure_and_publish e w)) = Suc (n_publish w) \<and>
           json_loads (json_dumps (make_payload (THING_NAME (cfg e)) (time_time w) temp hum)) =
             Some [(''thing'', JStr (THING_NAME (cfg e))), (''timestamp'', JInt (time_time w)),
                   (''temperature_C'', JInt temp), (''humidity_pct'', JInt hum)]"
proof (cases "dht_read e (n_dht w)")
  case (Inl ex)
  with assms show ?thesis
    by (simp add: measure_and_publish_def Let_def)
next
  case (Inr th)
  obtain temp hum where th: "th = (temp, hum)"
    by (cases th)
  let ?w1 = "emit Dht_measure (w\<lparr>n_dht := Suc (n_dht w)\<rparr>)"
  let ?p = "json_dumps (make_payload (THING_NAME (cfg e)) (time_time ?w1) temp hum)"
  let ?w2 = "print [''Publishing:'', ?p] ?w1"
  have t: "time_time ?w1 = time_time w"
    by (simp add: io_defs)
  from assms Inr th have ok: "fst (mqtt_publish e ?p ?w2)"
    by (simp add: measure_and_publish_def Let_def case_prod_beta split: if_splits)
  from ok Inr th have s: "snd (measure_and_publish e w) = print [''Published OK''] (snd (mqtt_publish e ?p ?w2))"
    by (simp add: measure_and_publish_def Let_def case_prod_beta)
  have "last (butlast (trace (snd (measure_and_publish e w)))) = Mqtt_publish (MQTT_TOPIC (cfg e)) ?p"
    using mqtt_publish_success(1) [OF ok] by (simp add: s io_defs)
  moreover have "n_publish (snd (measure_and_publish e w)) = Suc (n_publish w)"
    using mqtt_publish_success(2) [OF ok] by (simp add: s io_defs)
  ultimately show ?thesis
    using Inr th t by (simp add: MQTT_TOPIC_def json_loads_dumps make_payload_def)
qed

theorem published_message_witness:
  \<open>fst (measure_and_publish example_env example_world) \<and>
   dht_read example_env (n_dht example_world) = Inr (24, 55) \<and>
   last (butlast (trace (snd (measure_and_publish example_env example_world)))) =
     Mqtt_publish ''devices/T1/telemetry''
       ''{"thing": "T1", "timestamp": 1700000000, "temperature_C": 24, "humidity_pct": 55}'' \<and>
   n_publish (snd (measure_and_publish example_env example_world)) = 1 \<and>
   json_loads ''{"thing": "T1", "timestamp": 1700000000, "temperature_C": 24, "humidity_pct": 55}'' =
     Some [(''thing'', JStr ''T1''), (''timestamp'', JInt 1700000000),
           (''temperature_C'', JInt 24), (''humidity_pct'', JInt 55)] \<and>
   json_loads ''{"thing":"T1","timestamp":1700000000,"temperature_C":24,"humidity_pct":55}'' =
     Some [(''thing'', JStr ''T1''), (''timestamp'', JInt 1700000000),
           (''temperature_C'', JInt 24), (''humidity_pct'', JInt 55)]\<close>
proof -
  have f: "fst (measure_and_publish example_env example_world)"
    by (simp add: ex_defs measure_and_publish_def mqtt_publish_def mqtt_connect_def io_defs Let_def)
  have d: "dht_read example_env (n_dht example_world) = Inr (24, 55)"
    and c: "THING_NAME (cfg example_env) = ''T1''"
    and t: "time_time example_world = 1700000000"
    and n: "n_publish example_world = 0"
    by (simp_all add: ex_defs io_defs)
  from published_message [OF f] d c t n example_payload_text example_compact_text f
  show ?thesis
    by simp
qed

end
